theory Spec2Isabelle
  imports Main
begin

section \<open>Python values and exceptions\<close>

text \<open>
  The adapters \<^verbatim>\<open>OpenAiChat\<close> and \<^verbatim>\<open>GroqChat\<close> receive untyped Python values. The
  values they can tell apart are modelled by \<open>pyval\<close>: \<^verbatim>\<open>None\<close>, integers, strings, lists
  and dictionaries with string keys. A dictionary is an association list in insertion
  order; a lookup takes the first entry of a key.
\<close>

datatype pyval =
    PNone
  | PInt int
  | PStr string
  | PList "pyval list"
  | PDict "(string \<times> pyval) list"

text \<open>
  The exceptions that occur. \<open>APIError\<close> stands for \<^verbatim>\<open>openai.APIError\<close> and its
  subclasses, \<open>OtherException\<close> for any other subclass of \<^verbatim>\<open>Exception\<close> a remote call
  may raise. The remaining ones are the built-in exceptions raised by the adapters' own
  statements and by the library calls in them.
\<close>

datatype exn =
    APIError string
  | OtherException string
  | ValueError
  | TypeError
  | IndexError
  | KeyError
  | OverflowError

fun is_APIError :: "exn \<Rightarrow> bool" where
  "is_APIError (APIError _) = True"
| "is_APIError _ = False"

section \<open>\<^verbatim>\<open>extract_code\<close>\<close>

text \<open>
  \<^verbatim>\<open>str.split(sep)\<close> for a non-empty separator: the string is scanned from the left, every
  occurrence of the separator found ends the current piece and the scan goes on behind
  it. \<open>cur\<close> is the piece collected so far. Both call sites pass a non-empty literal
  (Python raises on an empty separator).
\<close>

function split_from :: "string \<Rightarrow> string \<Rightarrow> string \<Rightarrow> string list" where
  "split_from sep cur [] = [cur]"
| "split_from sep cur (c # cs) =
     (if sep \<noteq> [] \<and> take (length sep) (c # cs) = sep
      then cur # split_from sep [] (drop (length sep) (c # cs))
      else split_from sep (cur @ [c]) cs)"
  by pat_completeness auto
termination
  by (relation "measure (\<lambda>(sep, cur, s). length s)") auto

definition split :: "string \<Rightarrow> string \<Rightarrow> string list" where
  "split s sep = split_from sep [] s"

definition fence :: string where
  "fence = [CHR 0x60, CHR 0x60, CHR 0x60]"

definition newline :: string where
  "newline = [CHR 0x0A]"

text \<open>
  \<^verbatim>\<open>
  def extract_code(self, response: str) -> list :
      code_with_lang_tag = response.split('```')[1]
      code = code_with_lang_tag.split("\n")[1:]
      return code
  \<close>
  The subscript \<^verbatim>\<open>[1]\<close> raises \<^verbatim>\<open>IndexError\<close> when the split has one piece only; the
  slice \<^verbatim>\<open>[1:]\<close> never raises.
\<close>

definition extract_code :: "string \<Rightarrow> exn + string list" where
  "extract_code response =
     (let parts = split response fence in
      if 1 < length parts
      then (let code_with_lang_tag = parts ! 1 in Inr (drop 1 (split code_with_lang_tag newline)))
      else Inl IndexError)"

text \<open>
  The number of fence delimiters of a string, counted from the left without overlap.
\<close>

function count_fences :: "string \<Rightarrow> nat" where
  "count_fences [] = 0"
| "count_fences (c # cs) =
     (if take 3 (c # cs) = fence then Suc (count_fences (drop 3 (c # cs)))
      else count_fences cs)"
  by pat_completeness auto
termination
  by (relation "measure length") auto

section \<open>The conversation queue\<close>

text \<open>
  Subscripting with a string key, \<^verbatim>\<open>x[k]\<close>: a dictionary raises \<^verbatim>\<open>KeyError\<close> on a
  missing key, every other value raises \<^verbatim>\<open>TypeError\<close>. Item assignment
  \<^verbatim>\<open>x[k] = v\<close> on a dictionary overwrites the entry in place or adds it at the end.
\<close>

fun getitem :: "pyval \<Rightarrow> string \<Rightarrow> exn + pyval" where
  "getitem (PDict d) k = (case map_of d k of None \<Rightarrow> Inl KeyError | Some v \<Rightarrow> Inr v)"
| "getitem _ k = Inl TypeError"

fun dict_set :: "string \<Rightarrow> pyval \<Rightarrow> (string \<times> pyval) list \<Rightarrow> (string \<times> pyval) list" where
  "dict_set k v [] = [(k, v)]"
| "dict_set k v (e # d) = (if fst e = k then (k, v) # d else e # dict_set k v d)"

fun setitem :: "pyval \<Rightarrow> string \<Rightarrow> pyval \<Rightarrow> exn + pyval" where
  "setitem (PDict d) k v = Inr (PDict (dict_set k v d))"
| "setitem _ k v = Inl TypeError"

text \<open>
  Iterating a value, as \<^verbatim>\<open>list.extend\<close> does: a list yields its elements, a dictionary
  its keys, a string its characters; \<^verbatim>\<open>None\<close> and integers are not iterable.
\<close>

fun iter_items :: "pyval \<Rightarrow> exn + pyval list" where
  "iter_items (PList xs) = Inr xs"
| "iter_items (PDict d) = Inr (map (\<lambda>e. PStr (fst e)) d)"
| "iter_items (PStr s) = Inr (map (\<lambda>c. PStr [c]) s)"
| "iter_items PNone = Inl TypeError"
| "iter_items (PInt _) = Inl TypeError"

text \<open>
  The slice \<^verbatim>\<open>xs[start:]\<close>: a negative start counts from the end and is clipped at the
  front, a non-negative one is clipped at the length. In particular \<^verbatim>\<open>xs[-0:]\<close> is the
  whole list.
\<close>

definition slice_from :: "'a list \<Rightarrow> int \<Rightarrow> 'a list" where
  "slice_from xs start =
     (let n = int (length xs);
          i = (if start < 0 then max (n + start) 0 else min start n)
      in drop (nat i) xs)"

definition message :: "string \<Rightarrow> string \<Rightarrow> pyval" where
  "message r c = PDict [(''role'', PStr r), (''content'', PStr c)]"

fun is_str :: "pyval \<Rightarrow> bool" where
  "is_str (PStr _) = True"
| "is_str _ = False"

fun the_str :: "pyval \<Rightarrow> string" where
  "the_str (PStr s) = s"
| "the_str _ = []"

text \<open>\<^verbatim>\<open>isinstance(m, dict) and "role" in m and "content" in m\<close>\<close>

fun is_message_object :: "pyval \<Rightarrow> bool" where
  "is_message_object (PDict d) = (map_of d ''role'' \<noteq> None \<and> map_of d ''content'' \<noteq> None)"
| "is_message_object _ = False"

text \<open>\<^verbatim>\<open>msg["role"] == "system"\<close>, which raises when the subscript does.\<close>

definition role_is_system :: "pyval \<Rightarrow> exn + bool" where
  "role_is_system msg =
     (case getitem msg ''role'' of Inl e \<Rightarrow> Inl e | Inr r \<Rightarrow> Inr (r = PStr ''system''))"

text \<open>\<^verbatim>\<open>[msg for msg in queue if msg["role"] == "system"]\<close>\<close>

fun system_messages :: "pyval list \<Rightarrow> exn + pyval list" where
  "system_messages [] = Inr []"
| "system_messages (m # ms) =
     (case role_is_system m of
        Inl e \<Rightarrow> Inl e
      | Inr b \<Rightarrow>
          (case system_messages ms of
             Inl e \<Rightarrow> Inl e
           | Inr ss \<Rightarrow> Inr (if b then m # ss else ss)))"

text \<open>\<^verbatim>\<open>any(message["role"] == "system" for message in queue)\<close>, which stops at the first hit.\<close>

fun any_system :: "pyval list \<Rightarrow> exn + bool" where
  "any_system [] = Inr False"
| "any_system (m # ms) =
     (case role_is_system m of
        Inl e \<Rightarrow> Inl e
      | Inr b \<Rightarrow> if b then Inr True else any_system ms)"

text \<open>
  The fields of an adapter that the queue and the retry logic read. Both classes
  initialise them the same way; the queue starts empty. \<open>init\<close> is the constructor with
  the prompt, \<^verbatim>\<open>max_chat_history\<close> and \<^verbatim>\<open>max_retry\<close> given and \<^verbatim>\<open>base_delay\<close> at its
  default 1.
\<close>

record chat =
  max_chat_history :: int
  max_retry :: int
  base_delay :: int
  messages_queue :: "pyval list"
  system_prompt :: string

definition init :: "string \<Rightarrow> int \<Rightarrow> int \<Rightarrow> chat" where
  "init prompt history retry =
     \<lparr>max_chat_history = history, max_retry = retry, base_delay = 1, messages_queue = [],
      system_prompt = prompt\<rparr>"

text \<open>
  \<^verbatim>\<open>structure_message\<close>, the same text in both classes, in its four steps. Every step
  returns the adapter as the statement left it, also when it raises.

  Lines 100 to 106: a string becomes one user message, a list of strings one user
  message each, a list that is neither all strings nor all message objects raises
  \<^verbatim>\<open>ValueError\<close>. A value that is neither a string nor a list passes through as it is:
  the \<^verbatim>\<open>if\<close>/\<^verbatim>\<open>elif\<close> chain has no final \<^verbatim>\<open>else\<close>.
\<close>

fun normalize :: "pyval \<Rightarrow> exn + pyval" where
  "normalize (PStr s) = Inr (PList [message ''user'' s])"
| "normalize (PList ms) =
     (if list_all is_str ms then Inr (PList (map (\<lambda>m. message ''user'' (the_str m)) ms))
      else if \<not> list_all is_message_object ms then Inl ValueError
      else Inr (PList ms))"
| "normalize v = Inr v"

text \<open>Line 108: \<^verbatim>\<open>self.messages_queue.extend(message)\<close>\<close>

definition extend_queue :: "chat \<Rightarrow> pyval \<Rightarrow> chat \<times> (exn + unit)" where
  "extend_queue self msg =
     (case iter_items msg of
        Inl e \<Rightarrow> (self, Inl e)
      | Inr items \<Rightarrow> (self\<lparr>messages_queue := messages_queue self @ items\<rparr>, Inr ()))"

text \<open>
  Lines 110 to 113: when the queue is longer than \<^verbatim>\<open>max_chat_history\<close>, it becomes its
  system messages followed by the slice \<^verbatim>\<open>[-(max_chat_history-1):]\<close>.
\<close>

definition trim_queue :: "chat \<Rightarrow> chat \<times> (exn + unit)" where
  "trim_queue self =
     (if int (length (messages_queue self)) > max_chat_history self
      then (case system_messages (messages_queue self) of
              Inl e \<Rightarrow> (self, Inl e)
            | Inr ss \<Rightarrow>
                (self\<lparr>messages_queue :=
                         ss @ slice_from (messages_queue self) (- (max_chat_history self - 1))\<rparr>,
                 Inr ()))
      else (self, Inr ()))"

text \<open>
  Lines 116 and 117: a system message built from the current prompt is put in front when
  the queue is empty or the role of its first element is not \<^verbatim>\<open>"system"\<close>.
\<close>

definition ensure_system :: "chat \<Rightarrow> chat \<times> (exn + unit)" where
  "ensure_system self =
     (let ins = self\<lparr>messages_queue := message ''system'' (system_prompt self) # messages_queue self\<rparr>
      in case messages_queue self of
           [] \<Rightarrow> (ins, Inr ())
         | m # _ \<Rightarrow>
             (case getitem m ''role'' of
                Inl e \<Rightarrow> (self, Inl e)
              | Inr r \<Rightarrow> if r \<noteq> PStr ''system'' then (ins, Inr ()) else (self, Inr ())))"

definition structure_message :: "chat \<Rightarrow> pyval \<Rightarrow> chat \<times> (exn + pyval list)" where
  "structure_message self msg =
     (case normalize msg of
        Inl e \<Rightarrow> (self, Inl e)
      | Inr msg' \<Rightarrow>
          (case extend_queue self msg' of
             (self1, Inl e) \<Rightarrow> (self1, Inl e)
           | (self1, Inr _) \<Rightarrow>
               (case trim_queue self1 of
                  (self2, Inl e) \<Rightarrow> (self2, Inl e)
                | (self2, Inr _) \<Rightarrow>
                    (case ensure_system self2 of
                       (self3, Inl e) \<Rightarrow> (self3, Inl e)
                     | (self3, Inr _) \<Rightarrow> (self3, Inr (messages_queue self3))))))"

text \<open>
  \<^verbatim>\<open>set_system_prompt\<close>: the prompt is stored first; then a system message is put in
  front when the queue has none, otherwise the content of element 0 is overwritten.

  The queue is a list of values, not of object references. The source overwrites the
  content in the dictionary object at index 0, so another entry of the queue that is
  the same object changes with it; here element 0 alone changes. The same object can
  stand twice in the queue only after a trimming that kept a system message in the
  slice as well (\<^verbatim>\<open>max_chat_history = 1\<close>, or system messages of an input) or when the
  caller passed one object twice. The properties of \<^verbatim>\<open>set_system_prompt\<close> below are
  stated for queues where neither has happened.
\<close>

definition set_system_prompt :: "chat \<Rightarrow> string \<Rightarrow> chat \<times> (exn + unit)" where
  "set_system_prompt self prompt =
     (let self1 = self\<lparr>system_prompt := prompt\<rparr> in
      case any_system (messages_queue self1) of
        Inl e \<Rightarrow> (self1, Inl e)
      | Inr found \<Rightarrow>
          if \<not> found
          then (self1\<lparr>messages_queue := message ''system'' prompt # messages_queue self1\<rparr>, Inr ())
          else (case messages_queue self1 of
                  [] \<Rightarrow> (self1, Inl IndexError)
                | m # ms \<Rightarrow>
                    (case setitem m ''content'' (PStr prompt) of
                       Inl e \<Rightarrow> (self1, Inl e)
                     | Inr m' \<Rightarrow> (self1\<lparr>messages_queue := m' # ms\<rparr>, Inr ()))))"

definition clear_history :: "chat \<Rightarrow> chat" where
  "clear_history self = self\<lparr>messages_queue := [message ''system'' (system_prompt self)]\<rparr>"

section \<open>Retry with exponential backoff\<close>

text \<open>
  What a remote call does is not part of the adapters. The outside is a counter of the
  invocations made so far and the log of the completed calls of \<^verbatim>\<open>time.sleep\<close>; a
  remote call \<open>func\<close> gives, for the number of earlier invocations, either the exception
  it raises or its value. An entry of the sleep log is the value of \<^verbatim>\<open>retries\<close> the
  delay was computed from.
\<close>

record world =
  calls :: nat
  sleeps :: "int list"

definition invoked :: "world \<Rightarrow> world" where
  "invoked w = w\<lparr>calls := Suc (calls w)\<rparr>"

definition slept :: "int \<Rightarrow> world \<Rightarrow> world" where
  "slept retries w = w\<lparr>sleeps := sleeps w @ [retries]\<rparr>"

text \<open>
  The delay of a retry, in both classes:
  \<^verbatim>\<open>
  delay = (2 ** retries + random.random()) * self.base_delay
  ...
  time.sleep(delay)
  \<close>
  The sum \<^verbatim>\<open>2 ** retries + random.random()\<close> converts the integer power to a float and
  raises \<^verbatim>\<open>OverflowError\<close> when \<^verbatim>\<open>retries\<close> is 1024 or more. Whether the product with
  \<^verbatim>\<open>base_delay\<close> or the call of \<^verbatim>\<open>time.sleep\<close> raises (a negative delay, a delay
  beyond the range of the platform's clock) depends on the random number, on floating
  point rounding and on the platform. That part is a parameter, the clock: for the
  value of \<^verbatim>\<open>base_delay\<close> and of \<^verbatim>\<open>retries\<close> it gives the exception raised, or \<open>None\<close>
  when the delay is computed and slept.
\<close>

type_synonym clock = "int \<Rightarrow> int \<Rightarrow> exn option"

definition delay_and_sleep :: "clock \<Rightarrow> int \<Rightarrow> int \<Rightarrow> exn option" where
  "delay_and_sleep sleep base retries =
     (if 1024 \<le> retries then Some OverflowError else sleep base retries)"

text \<open>
  \<^verbatim>\<open>GroqChat.retry_with_exponential_backoff\<close>: the handler is \<^verbatim>\<open>except Exception\<close>.
  An exception raised inside the handler, by the delay or by the recursive call, leaves
  the function: the \<^verbatim>\<open>try\<close> covers the remote call only. The recursion of the source
  is kept; it ends because \<^verbatim>\<open>retries\<close> grows towards \<^verbatim>\<open>max_retry\<close>. The interpreter's
  bound on the recursion depth is not modelled.
\<close>

function groq_retry_with_exponential_backoff ::
  "clock \<Rightarrow> int \<Rightarrow> int \<Rightarrow> (nat \<Rightarrow> exn + 'a) \<Rightarrow> int \<Rightarrow> world \<Rightarrow> (exn + 'a) \<times> world" where
  "groq_retry_with_exponential_backoff sleep base mr func retries w =
     (case func (calls w) of
        Inr v \<Rightarrow> (Inr v, invoked w)
      | Inl e \<Rightarrow>
          if retries + 1 > mr then (Inl e, invoked w)
          else (case delay_and_sleep sleep base (retries + 1) of
                  Some x \<Rightarrow> (Inl x, invoked w)
                | None \<Rightarrow>
                    groq_retry_with_exponential_backoff sleep base mr func (retries + 1)
                      (slept (retries + 1) (invoked w))))"
  by pat_completeness auto
termination
  by (relation "measure (\<lambda>(sleep, base, mr, func, retries, w). nat (mr - retries))") auto

declare groq_retry_with_exponential_backoff.simps [simp del]

text \<open>
  \<^verbatim>\<open>OpenAiChat.retry_with_exponential_backoff\<close>: the handler is
  \<^verbatim>\<open>except openai.APIError\<close>, so any other exception leaves the function at once.
\<close>

function openai_retry_with_exponential_backoff ::
  "clock \<Rightarrow> int \<Rightarrow> int \<Rightarrow> (nat \<Rightarrow> exn + 'a) \<Rightarrow> int \<Rightarrow> world \<Rightarrow> (exn + 'a) \<times> world" where
  "openai_retry_with_exponential_backoff sleep base mr func retries w =
     (case func (calls w) of
        Inr v \<Rightarrow> (Inr v, invoked w)
      | Inl e \<Rightarrow>
          if \<not> is_APIError e then (Inl e, invoked w)
          else if retries + 1 > mr then (Inl e, invoked w)
          else (case delay_and_sleep sleep base (retries + 1) of
                  Some x \<Rightarrow> (Inl x, invoked w)
                | None \<Rightarrow>
                    openai_retry_with_exponential_backoff sleep base mr func (retries + 1)
                      (slept (retries + 1) (invoked w))))"
  by pat_completeness auto
termination
  by (relation "measure (\<lambda>(sleep, base, mr, func, retries, w). nat (mr - retries))") auto

declare openai_retry_with_exponential_backoff.simps [simp del]

section \<open>\<^verbatim>\<open>get_response\<close>\<close>

text \<open>
  The remote completion call of an adapter: from the number of earlier invocations, the
  model name and the messages sent, the exception raised or the text of the first
  choice. The result of \<^verbatim>\<open>get_response\<close> is the exception that leaves it or the value
  returned, where \<open>None\<close> is Python's \<^verbatim>\<open>None\<close>: the value of a call that reaches the end
  of the function body without a \<^verbatim>\<open>return\<close>.
\<close>

type_synonym remote = "nat \<Rightarrow> string \<Rightarrow> pyval list \<Rightarrow> exn + string"

text \<open>
  \<^verbatim>\<open>GroqChat.get_response\<close>: \<^verbatim>\<open>structure_message\<close> runs outside the \<^verbatim>\<open>try\<close>; the only
  handler logs and raises again.
\<close>

definition groq_get_response ::
  "clock \<Rightarrow> remote \<Rightarrow> chat \<Rightarrow> pyval \<Rightarrow> string \<Rightarrow> world \<Rightarrow>
   (chat \<times> world) \<times> (exn + string option)" where
  "groq_get_response sleep create self msg model w =
     (case structure_message self msg of
        (self1, Inl e) \<Rightarrow> ((self1, w), Inl e)
      | (self1, Inr _) \<Rightarrow>
          (case groq_retry_with_exponential_backoff sleep (base_delay self1) (max_retry self1)
                  (\<lambda>n. create n model (messages_queue self1)) 0 w of
             (Inr content, w') \<Rightarrow>
               ((self1\<lparr>messages_queue := messages_queue self1 @ [message ''assistant'' content]\<rparr>, w'),
                Inr (Some content))
           | (Inl e, w') \<Rightarrow> ((self1, w'), Inl e)))"

text \<open>
  \<^verbatim>\<open>OpenAiChat.get_response\<close>: the handler for \<^verbatim>\<open>openai.APIError\<close> logs only, and the
  function ends without a \<^verbatim>\<open>return\<close>; the handler for \<^verbatim>\<open>Exception\<close> logs and raises
  again.
\<close>

definition openai_get_response ::
  "clock \<Rightarrow> remote \<Rightarrow> chat \<Rightarrow> pyval \<Rightarrow> string \<Rightarrow> world \<Rightarrow>
   (chat \<times> world) \<times> (exn + string option)" where
  "openai_get_response sleep create self msg model w =
     (case structure_message self msg of
        (self1, Inl e) \<Rightarrow> ((self1, w), Inl e)
      | (self1, Inr _) \<Rightarrow>
          (case openai_retry_with_exponential_backoff sleep (base_delay self1) (max_retry self1)
                  (\<lambda>n. create n model (messages_queue self1)) 0 w of
             (Inr content, w') \<Rightarrow>
               ((self1\<lparr>messages_queue := messages_queue self1 @ [message ''assistant'' content]\<rparr>, w'),
                Inr (Some content))
           | (Inl e, w') \<Rightarrow>
               if is_APIError e then ((self1, w'), Inr None) else ((self1, w'), Inl e)))"

section \<open>Notions used in the properties\<close>


definition fresh :: world where
  "fresh = \<lparr>calls = 0, sleeps = []\<rparr>"

text \<open>A message of the queue has the system role when its \<^verbatim>\<open>"role"\<close> entry is \<^verbatim>\<open>"system"\<close>.\<close>

definition is_system :: "pyval \<Rightarrow> bool" where
  "is_system m = (getitem m ''role'' = Inr (PStr ''system''))"

definition system_count :: "pyval list \<Rightarrow> nat" where
  "system_count q = length (filter is_system q)"

text \<open>
  The inputs of the three documented shapes that bring no system message along: a
  string, a list of strings, or a list of message objects none of which has the system
  role.
\<close>

definition user_object :: "pyval \<Rightarrow> bool" where
  "user_object m = (is_message_object m \<and> \<not> is_system m)"

fun plain_input :: "pyval \<Rightarrow> bool" where
  "plain_input (PStr s) = True"
| "plain_input (PList ms) = (list_all is_str ms \<or> list_all user_object ms)"
| "plain_input _ = False"

text \<open>
  The operations on the queue as actions, and a run of them. An operation that raises
  leaves the adapter as it was at the raise.
\<close>

datatype action = Append pyval | SetSystemPrompt string | ClearHistory

fun perform :: "chat \<Rightarrow> action \<Rightarrow> chat" where
  "perform self (Append msg) = fst (structure_message self msg)"
| "perform self (SetSystemPrompt prompt) = fst (set_system_prompt self prompt)"
| "perform self ClearHistory = clear_history self"

fun run :: "chat \<Rightarrow> action list \<Rightarrow> chat" where
  "run self [] = self"
| "run self (a # as) = run (perform self a) as"

fun plain_action :: "action \<Rightarrow> bool" where
  "plain_action (Append msg) = plain_input msg"
| "plain_action _ = True"

text \<open>
  The property of the queue that the system prompt is to keep: at most one message with
  the system role, and it is the first one of a queue that is not empty.
\<close>

definition one_system_first :: "pyval list \<Rightarrow> bool" where
  "one_system_first q = (system_count q \<le> 1 \<and> (q = [] \<or> is_system (hd q)))"

text \<open>
  The shape of the queues that plain inputs produce: empty, or a system message followed
  by message objects of other roles.
\<close>

fun queue_inv :: "pyval list \<Rightarrow> bool" where
  "queue_inv [] = True"
| "queue_inv (m # ms) = (is_system m \<and> list_all user_object ms)"

section \<open>Properties of \<^verbatim>\<open>extract_code\<close>\<close>

text \<open>
  The split at the fence has one piece more than the string has fences, and a string has
  no fence exactly when the delimiter occurs nowhere in it.
\<close>

lemma length_fence: "length fence = 3"
  by (simp add: fence_def)

lemma length_split_from: "length (split_from fence cur s) = Suc (count_fences s)"
proof (induction s arbitrary: cur rule: count_fences.induct)
  case 1
  show ?case by simp
next
  case (2 c cs)
  have ne: "fence \<noteq> []" using length_fence by auto
  show ?case
  proof (cases "take 3 (c # cs) = fence")
    case True
    have "split_from fence cur (c # cs) = cur # split_from fence [] (drop 3 (c # cs))"
      using True ne by (simp only: split_from.simps length_fence if_True simp_thms)
    moreover have "count_fences (c # cs) = Suc (count_fences (drop 3 (c # cs)))"
      using True by (simp only: count_fences.simps if_True simp_thms)
    ultimately show ?thesis using 2(1)[OF True] by simp
  next
    case False
    have "split_from fence cur (c # cs) = split_from fence (cur @ [c]) cs"
      using False by (simp only: split_from.simps length_fence if_False simp_thms)
    moreover have "count_fences (c # cs) = count_fences cs"
      using False by (simp only: count_fences.simps if_False simp_thms)
    ultimately show ?thesis using 2(2)[OF False] by metis
  qed
qed

lemma count_fences_zero_iff: "count_fences s = 0 \<longleftrightarrow> (\<forall>u v. s \<noteq> u @ fence @ v)"
proof (induction s rule: count_fences.induct)
  case 1
  show ?case by (simp add: fence_def)
next
  case (2 c cs)
  show ?case
  proof (cases "take 3 (c # cs) = fence")
    case True
    then have "c # cs = [] @ fence @ drop 3 (c # cs)"
      by (metis append_Nil append_take_drop_id)
    then have ex: "\<exists>u v. c # cs = u @ fence @ v" by blast
    have "count_fences (c # cs) = Suc (count_fences (drop 3 (c # cs)))"
      using True by (simp only: count_fences.simps if_True simp_thms)
    with ex show ?thesis by simp
  next
    case False
    have "(\<exists>u v. c # cs = u @ fence @ v) \<longleftrightarrow> (\<exists>u v. cs = u @ fence @ v)"
    proof
      assume "\<exists>u v. c # cs = u @ fence @ v"
      then obtain u v where uv: "c # cs = u @ fence @ v" by blast
      show "\<exists>u v. cs = u @ fence @ v"
      proof (cases u)
        case Nil
        with uv have "take 3 (c # cs) = fence" by (simp add: fence_def)
        with False show ?thesis by simp
      next
        case (Cons a u')
        with uv have "cs = u' @ fence @ v" by simp
        then show ?thesis by blast
      qed
    next
      assume "\<exists>u v. cs = u @ fence @ v"
      then obtain u v where "cs = u @ fence @ v" by blast
      then have "c # cs = (c # u) @ fence @ v" by simp
      then show "\<exists>u v. c # cs = u @ fence @ v" by blast
    qed
    moreover have "count_fences (c # cs) = count_fences cs"
      using False by (simp only: count_fences.simps if_False simp_thms)
    ultimately show ?thesis using 2(2)[OF False] by metis
  qed
qed

text \<open>
  C3, as the code behaves. On the input of the scenario \<^verbatim>\<open>extract_code\<close> returns the
  two lines \<^verbatim>\<open>["print(1)", ""]\<close>: the language tag is dropped, and the newline in front
  of the closing fence leaves an empty last line. Only the first block counts: whatever
  follows the closing fence, the result is the same.
\<close>

theorem extract_code_scenario:
  "extract_code ''intro\<newline>```python\<newline>print(1)\<newline>```\<newline>outro'' = Inr [''print(1)'', '''']
   \<and> (\<forall>rest. extract_code (''intro\<newline>```python\<newline>print(1)\<newline>```'' @ rest)
          = Inr [''print(1)'', ''''])"
  by (simp add: extract_code_def fence_def split_def newline_def)

text \<open>
  C3, as stated, fails: the result on the input of the scenario is not the one-element
  sequence \<^verbatim>\<open>["print(1)"]\<close>.
\<close>

theorem extract_code_scenario_counterexample:
  "extract_code ''intro\<newline>```python\<newline>print(1)\<newline>```\<newline>outro'' \<noteq> Inr [''print(1)'']"
  by (simp add: extract_code_def fence_def split_def newline_def)

text \<open>
  C4, as the code behaves. \<^verbatim>\<open>extract_code\<close> raises \<^verbatim>\<open>IndexError\<close> for every string
  without a fence delimiter. For every string with at least one delimiter it returns:
  the lines of the piece behind the first delimiter, without the first of them. Whether
  the block is closed by a second delimiter is not looked at.
\<close>

theorem extract_code_fails_iff_no_fence:
  "(count_fences s = 0 \<longrightarrow> extract_code s = Inl IndexError) \<and>
   (0 < count_fences s \<longrightarrow>
      extract_code s = Inr (drop 1 (split (split s fence ! 1) newline)))"
  by (simp add: extract_code_def split_def length_split_from Let_def)

theorem extract_code_fails_iff_no_fence_witness:
  "count_fences ''plain text, no fences'' = 0 \<and>
   extract_code ''plain text, no fences'' = Inl IndexError \<and>
   0 < count_fences ''```python\<newline>print(1)'' \<and>
   extract_code ''```python\<newline>print(1)'' = Inr [''print(1)'']"
  using extract_code_fails_iff_no_fence [of "''plain text, no fences''"]
    extract_code_fails_iff_no_fence [of "''```python\<newline>print(1)''"]
  by (simp add: fence_def split_def newline_def)

text \<open>
  C4, as stated, fails: a string with one fence delimiter only, an opened block that is
  never closed, has fewer than two delimiters, and \<^verbatim>\<open>extract_code\<close> returns a result
  for it.
\<close>

theorem extract_code_one_fence_counterexample:
  "count_fences ''```python\<newline>print(1)'' < 2 \<and>
   extract_code ''```python\<newline>print(1)'' = Inr [''print(1)'']"
  by (simp add: extract_code_def fence_def split_def newline_def)

section \<open>Properties of the retry executors\<close>






lemma openai_retry_success_now:
  "func (calls w) = Inr v \<Longrightarrow>
   openai_retry_with_exponential_backoff sleep base mr func retries w = (Inr v, invoked w)"
  by (subst openai_retry_with_exponential_backoff.simps) simp












section \<open>Properties of the queue and of \<^verbatim>\<open>get_response\<close>\<close>

lemmas queue_defs = structure_message_def extend_queue_def trim_queue_def ensure_system_def
  message_def role_is_system_def slice_from_def init_def clear_history_def

text \<open>
  The Groq adapter never ends a call normally without a reply: its only handler raises
  again.
\<close>

lemma groq_get_response_reply_or_raise:
  "snd (groq_get_response sleep create self msg model w) \<noteq> Inr None"
  by (auto simp: groq_get_response_def split: prod.splits sum.splits)

text \<open>
  C1 does not hold of the OpenAI adapter. With the default settings, a remote call
  that raises \<^verbatim>\<open>APIError\<close> on every invocation and a clock on which each of the ten
  delays passes, the retry budget runs out, the handler
  of \<^verbatim>\<open>get_response\<close> for \<^verbatim>\<open>openai.APIError\<close> logs the error, and the call returns
  \<^verbatim>\<open>None\<close>: no reply and no exception. The Groq adapter raises the error on the same
  input.
\<close>

theorem openai_get_response_returns_none:
  "snd (openai_get_response (\<lambda>base r. None) (\<lambda>n model q. Inl (APIError ''rate limit''))
          (init ''You are a helpful assistant.'' 10 10) (PStr ''hi'') ''gpt-4o-mini'' fresh) = Inr None \<and>
   snd (groq_get_response (\<lambda>base r. None) (\<lambda>n model q. Inl (APIError ''rate limit''))
          (init ''You are a helpful assistant.'' 10 10) (PStr ''hi'') ''gpt-4o-mini'' fresh) =
     Inl (APIError ''rate limit'')"
  by (simp add: openai_get_response_def groq_get_response_def queue_defs fresh_def
      openai_retry_with_exponential_backoff.simps groq_retry_with_exponential_backoff.simps
      invoked_def slept_def delay_and_sleep_def)

text \<open>
  A list that is neither all strings nor all message objects raises \<^verbatim>\<open>ValueError\<close> and
  leaves the adapter as it was.
\<close>

lemma structure_message_invalid_list:
  "\<not> list_all is_str ms \<Longrightarrow> \<not> list_all is_message_object ms \<Longrightarrow>
   structure_message self (PList ms) = (self, Inl ValueError)"
  by (simp add: structure_message_def)

text \<open>
  C8 does not hold of inputs that are no lists. A bare dictionary, given to an adapter
  whose queue holds the system message, is accepted: no exception, and its keys are
  appended to the queue as strings. A bare number raises \<^verbatim>\<open>TypeError\<close> from
  \<^verbatim>\<open>list.extend\<close>, not the \<^verbatim>\<open>ValueError\<close> of the format check.
\<close>

theorem structure_message_bare_dict_accepted:
  "structure_message (clear_history (init ''You are a helpful assistant.'' 10 10))
     (PDict [(''role'', PStr ''user''), (''content'', PStr ''hi'')]) =
   (\<lparr>max_chat_history = 10, max_retry = 10, base_delay = 1,
     messages_queue = [message ''system'' ''You are a helpful assistant.'', PStr ''role'', PStr ''content''],
     system_prompt = ''You are a helpful assistant.''\<rparr>,
    Inr [message ''system'' ''You are a helpful assistant.'', PStr ''role'', PStr ''content'']) \<and>
   structure_message (init ''You are a helpful assistant.'' 10 10) (PInt 5) =
   (init ''You are a helpful assistant.'' 10 10, Inl TypeError)"
  by (simp add: queue_defs)

text \<open>
  C5 does not hold of the first call on an empty queue. With \<^verbatim>\<open>max_chat_history = 2\<close>
  and a list of two strings the queue has length 2 at the length check, is not
  trimmed, and the system message is put in front afterwards: the queue ends with
  three messages.
\<close>

theorem structure_message_exceeds_max_history:
  "length (messages_queue (fst (structure_message (init ''You are a helpful assistant.'' 2 10)
      (PList [PStr ''a'', PStr ''b''])))) = 3 \<and>
   snd (structure_message (init ''You are a helpful assistant.'' 2 10)
      (PList [PStr ''a'', PStr ''b''])) =
     Inr [message ''system'' ''You are a helpful assistant.'', message ''user'' ''a'', message ''user'' ''b'']"
  by (simp add: queue_defs)

text \<open>
  A call of \<^verbatim>\<open>get_response\<close> that returns a reply has run \<^verbatim>\<open>structure_message\<close> without
  an exception and has appended the reply as an assistant message, without trimming
  again.
\<close>

lemma openai_get_response_reply:
  "openai_get_response sleep create self msg model w = ((self', w'), Inr (Some r)) \<Longrightarrow>
   \<exists>self1 q. structure_message self msg = (self1, Inr q) \<and>
     self' = self1\<lparr>messages_queue := messages_queue self1 @ [message ''assistant'' r]\<rparr>"
  by (auto simp: openai_get_response_def split: prod.splits sum.splits if_splits)

lemma groq_get_response_reply:
  "groq_get_response sleep create self msg model w = ((self', w'), Inr (Some r)) \<Longrightarrow>
   \<exists>self1 q. structure_message self msg = (self1, Inr q) \<and>
     self' = self1\<lparr>messages_queue := messages_queue self1 @ [message ''assistant'' r]\<rparr>"
  by (auto simp: groq_get_response_def split: prod.splits sum.splits)

lemma three_appends:
  assumes "structure_message (init p 3 mr) (PStr ''hi'') = (s1, Inr q1)"
    and "a1 = s1\<lparr>messages_queue := messages_queue s1 @ [message ''assistant'' r1]\<rparr>"
    and "structure_message a1 (PStr ''again'') = (s2, Inr q2)"
    and "a2 = s2\<lparr>messages_queue := messages_queue s2 @ [message ''assistant'' r2]\<rparr>"
    and "structure_message a2 (PStr ''third'') = (s3, Inr q3)"
    and "a3 = s3\<lparr>messages_queue := messages_queue s3 @ [message ''assistant'' r3]\<rparr>"
  shows "messages_queue a3 =
    [message ''system'' p, message ''assistant'' r2, message ''user'' ''third'', message ''assistant'' r3]"
proof -
  have 1: "a1 = \<lparr>max_chat_history = 3, max_retry = mr, base_delay = 1,
      messages_queue = [message ''system'' p, message ''user'' ''hi'', message ''assistant'' r1],
      system_prompt = p\<rparr>"
    using assms(1,2) by (auto simp: queue_defs)
  have 2: "a2 = \<lparr>max_chat_history = 3, max_retry = mr, base_delay = 1,
      messages_queue = [message ''system'' p, message ''assistant'' r1, message ''user'' ''again'',
        message ''assistant'' r2],
      system_prompt = p\<rparr>"
    using assms(3,4) unfolding 1 by (auto simp: queue_defs)
  show ?thesis
    using assms(5,6) unfolding 2 by (auto simp: queue_defs)
qed

text \<open>
  C2, as the code behaves. On an adapter built with \<^verbatim>\<open>max_chat_history = 3\<close>, three calls
  of \<^verbatim>\<open>get_response\<close> with \<^verbatim>\<open>"hi"\<close>, \<^verbatim>\<open>"again"\<close> and \<^verbatim>\<open>"third"\<close> that each return a reply
  leave a queue of length 4: the system message, the second reply, the user message
  \<^verbatim>\<open>"third"\<close> and the third reply. Element 0 is the system message. This holds of both
  adapters, for every remote call and every clock, whatever number of retries each call
  took.
\<close>

theorem three_replies_queue:
  "(openai_get_response sleep create (init p 3 mr) (PStr ''hi'') model w0 = ((a1, w1), Inr (Some r1)) \<and>
    openai_get_response sleep create a1 (PStr ''again'') model w1 = ((a2, w2), Inr (Some r2)) \<and>
    openai_get_response sleep create a2 (PStr ''third'') model w2 = ((a3, w3), Inr (Some r3))
    \<longrightarrow> messages_queue a3 =
          [message ''system'' p, message ''assistant'' r2, message ''user'' ''third'',
           message ''assistant'' r3] \<and>
        length (messages_queue a3) = 4 \<and> is_system (messages_queue a3 ! 0)) \<and>
   (groq_get_response sleep create (init p 3 mr) (PStr ''hi'') model w0 = ((b1, v1), Inr (Some r1)) \<and>
    groq_get_response sleep create b1 (PStr ''again'') model v1 = ((b2, v2), Inr (Some r2)) \<and>
    groq_get_response sleep create b2 (PStr ''third'') model v2 = ((b3, v3), Inr (Some r3))
    \<longrightarrow> messages_queue b3 =
          [message ''system'' p, message ''assistant'' r2, message ''user'' ''third'',
           message ''assistant'' r3] \<and>
        length (messages_queue b3) = 4 \<and> is_system (messages_queue b3 ! 0))"
proof (intro conjI impI)
  assume a: "openai_get_response sleep create (init p 3 mr) (PStr ''hi'') model w0 = ((a1, w1), Inr (Some r1)) \<and>
    openai_get_response sleep create a1 (PStr ''again'') model w1 = ((a2, w2), Inr (Some r2)) \<and>
    openai_get_response sleep create a2 (PStr ''third'') model w2 = ((a3, w3), Inr (Some r3))"
  from a openai_get_response_reply[of sleep create "init p 3 mr" "PStr ''hi''" model w0 a1 w1 r1]
  obtain s1 q1 where 1: "structure_message (init p 3 mr) (PStr ''hi'') = (s1, Inr q1)"
    "a1 = s1\<lparr>messages_queue := messages_queue s1 @ [message ''assistant'' r1]\<rparr>" by blast
  from a openai_get_response_reply[of sleep create a1 "PStr ''again''" model w1 a2 w2 r2]
  obtain s2 q2 where 2: "structure_message a1 (PStr ''again'') = (s2, Inr q2)"
    "a2 = s2\<lparr>messages_queue := messages_queue s2 @ [message ''assistant'' r2]\<rparr>" by blast
  from a openai_get_response_reply[of sleep create a2 "PStr ''third''" model w2 a3 w3 r3]
  obtain s3 q3 where 3: "structure_message a2 (PStr ''third'') = (s3, Inr q3)"
    "a3 = s3\<lparr>messages_queue := messages_queue s3 @ [message ''assistant'' r3]\<rparr>" by blast
  show q: "messages_queue a3 =
          [message ''system'' p, message ''assistant'' r2, message ''user'' ''third'',
           message ''assistant'' r3]"
    by (rule three_appends[OF 1 2 3])
  show "length (messages_queue a3) = 4" by (simp add: q)
  show "is_system (messages_queue a3 ! 0)" by (simp add: q is_system_def message_def)
next
  assume a: "groq_get_response sleep create (init p 3 mr) (PStr ''hi'') model w0 = ((b1, v1), Inr (Some r1)) \<and>
    groq_get_response sleep create b1 (PStr ''again'') model v1 = ((b2, v2), Inr (Some r2)) \<and>
    groq_get_response sleep create b2 (PStr ''third'') model v2 = ((b3, v3), Inr (Some r3))"
  from a groq_get_response_reply[of sleep create "init p 3 mr" "PStr ''hi''" model w0 b1 v1 r1]
  obtain s1 q1 where 1: "structure_message (init p 3 mr) (PStr ''hi'') = (s1, Inr q1)"
    "b1 = s1\<lparr>messages_queue := messages_queue s1 @ [message ''assistant'' r1]\<rparr>" by blast
  from a groq_get_response_reply[of sleep create b1 "PStr ''again''" model v1 b2 v2 r2]
  obtain s2 q2 where 2: "structure_message b1 (PStr ''again'') = (s2, Inr q2)"
    "b2 = s2\<lparr>messages_queue := messages_queue s2 @ [message ''assistant'' r2]\<rparr>" by blast
  from a groq_get_response_reply[of sleep create b2 "PStr ''third''" model v2 b3 v3 r3]
  obtain s3 q3 where 3: "structure_message b2 (PStr ''third'') = (s3, Inr q3)"
    "b3 = s3\<lparr>messages_queue := messages_queue s3 @ [message ''assistant'' r3]\<rparr>" by blast
  show q: "messages_queue b3 =
          [message ''system'' p, message ''assistant'' r2, message ''user'' ''third'',
           message ''assistant'' r3]"
    by (rule three_appends[OF 1 2 3])
  show "length (messages_queue b3) = 4" by (simp add: q)
  show "is_system (messages_queue b3 ! 0)" by (simp add: q is_system_def message_def)
qed

theorem three_replies_queue_witness:
  "openai_get_response (\<lambda>base r. None) (\<lambda>n model q. Inr ''reply'') (init ''P'' 3 10) (PStr ''hi'') ''m'' fresh =
     ((\<lparr>max_chat_history = 3, max_retry = 10, base_delay = 1,
        messages_queue = [message ''system'' ''P'', message ''user'' ''hi'', message ''assistant'' ''reply''],
        system_prompt = ''P''\<rparr>, \<lparr>calls = 1, sleeps = []\<rparr>), Inr (Some ''reply'')) \<and>
   openai_get_response (\<lambda>base r. None) (\<lambda>n model q. Inr ''reply'')
     \<lparr>max_chat_history = 3, max_retry = 10, base_delay = 1,
        messages_queue = [message ''system'' ''P'', message ''user'' ''hi'', message ''assistant'' ''reply''],
        system_prompt = ''P''\<rparr> (PStr ''again'') ''m'' \<lparr>calls = 1, sleeps = []\<rparr> =
     ((\<lparr>max_chat_history = 3, max_retry = 10, base_delay = 1,
        messages_queue = [message ''system'' ''P'', message ''assistant'' ''reply'',
          message ''user'' ''again'', message ''assistant'' ''reply''],
        system_prompt = ''P''\<rparr>, \<lparr>calls = 2, sleeps = []\<rparr>), Inr (Some ''reply'')) \<and>
   openai_get_response (\<lambda>base r. None) (\<lambda>n model q. Inr ''reply'')
     \<lparr>max_chat_history = 3, max_retry = 10, base_delay = 1,
        messages_queue = [message ''system'' ''P'', message ''assistant'' ''reply'',
          message ''user'' ''again'', message ''assistant'' ''reply''],
        system_prompt = ''P''\<rparr> (PStr ''third'') ''m'' \<lparr>calls = 2, sleeps = []\<rparr> =
     ((\<lparr>max_chat_history = 3, max_retry = 10, base_delay = 1,
        messages_queue = [message ''system'' ''P'', message ''assistant'' ''reply'',
          message ''user'' ''third'', message ''assistant'' ''reply''],
        system_prompt = ''P''\<rparr>, \<lparr>calls = 3, sleeps = []\<rparr>), Inr (Some ''reply'')) \<and>
   length [message ''system'' ''P'', message ''assistant'' ''reply'',
          message ''user'' ''third'', message ''assistant'' ''reply''] = 4"
  using three_replies_queue [of "\<lambda>base r. None" "\<lambda>n model q. Inr ''reply''" "''P''" 10 "''m''" fresh
      "\<lparr>max_chat_history = 3, max_retry = 10, base_delay = 1,
        messages_queue = [message ''system'' ''P'', message ''user'' ''hi'', message ''assistant'' ''reply''],
        system_prompt = ''P''\<rparr>" "\<lparr>calls = 1, sleeps = []\<rparr>" "''reply''"
      "\<lparr>max_chat_history = 3, max_retry = 10, base_delay = 1,
        messages_queue = [message ''system'' ''P'', message ''assistant'' ''reply'',
          message ''user'' ''again'', message ''assistant'' ''reply''],
        system_prompt = ''P''\<rparr>" "\<lparr>calls = 2, sleeps = []\<rparr>" "''reply''"
      "\<lparr>max_chat_history = 3, max_retry = 10, base_delay = 1,
        messages_queue = [message ''system'' ''P'', message ''assistant'' ''reply'',
          message ''user'' ''third'', message ''assistant'' ''reply''],
        system_prompt = ''P''\<rparr>" "\<lparr>calls = 3, sleeps = []\<rparr>" "''reply''", THEN conjunct1]
  by (simp add: openai_get_response_def queue_defs fresh_def openai_retry_success_now invoked_def)

text \<open>
  C2, as stated, fails: with a remote call that answers at once, the queue after the
  three calls has length 4, not 3. The reply is appended after the queue was trimmed.
\<close>

theorem three_replies_length_counterexample:
  "length (messages_queue (fst (fst
     (openai_get_response (\<lambda>base r. None) (\<lambda>n model q. Inr ''reply'')
        (fst (fst (openai_get_response (\<lambda>base r. None) (\<lambda>n model q. Inr ''reply'')
           (fst (fst (openai_get_response (\<lambda>base r. None) (\<lambda>n model q. Inr ''reply'') (init ''P'' 3 10)
              (PStr ''hi'') ''m'' fresh)))
           (PStr ''again'') ''m'' \<lparr>calls = 1, sleeps = []\<rparr>)))
        (PStr ''third'') ''m'' \<lparr>calls = 2, sleeps = []\<rparr>)))) = 4"
  by (simp add: openai_get_response_def queue_defs fresh_def openai_retry_success_now invoked_def)

section \<open>The system prompt stays single and first\<close>

text \<open>
  Message objects of other roles are skipped by the filter for system messages and by
  the search of \<^verbatim>\<open>set_system_prompt\<close>; a plain input is normalised to a list of such
  objects. When \<^verbatim>\<open>max_chat_history\<close> is not 1, the slice taken by the trimming step leaves
  the first element of a queue that is too long out. From these, each step of
  \<^verbatim>\<open>structure_message\<close> and each operation keeps the shape \<open>queue_inv\<close>, and raises
  nothing.
\<close>

lemma user_object_role:
  "user_object m \<Longrightarrow> \<exists>r. getitem m ''role'' = Inr r \<and> r \<noteq> PStr ''system''"
  by (cases m) (auto simp: user_object_def is_system_def split: option.splits)

lemma user_object_not_system: "user_object m \<Longrightarrow> role_is_system m = Inr False"
  using user_object_role[of m] by (auto simp: role_is_system_def)

lemma is_system_role: "is_system m \<Longrightarrow> role_is_system m = Inr True"
  by (simp add: is_system_def role_is_system_def)

lemma system_messages_users: "list_all user_object ms \<Longrightarrow> system_messages ms = Inr []"
  by (induction ms) (auto simp: user_object_not_system)

lemma any_system_users: "list_all user_object ms \<Longrightarrow> any_system ms = Inr False"
  by (induction ms) (auto simp: user_object_not_system)

lemma filter_system_users: "list_all user_object ms \<Longrightarrow> filter is_system ms = []"
  by (induction ms) (auto simp: user_object_def)

lemma user_object_message: "r \<noteq> ''system'' \<Longrightarrow> user_object (message r c)"
  by (simp add: user_object_def message_def is_system_def)

lemma is_system_message: "is_system (message ''system'' c)"
  by (simp add: message_def is_system_def)

lemma normalize_plain:
  "plain_input msg \<Longrightarrow> \<exists>items. normalize msg = Inr (PList items) \<and> list_all user_object items"
proof (cases msg)
  case (PStr s)
  then show ?thesis by (simp add: user_object_message)
next
  case (PList ms)
  assume p: "plain_input msg"
  show ?thesis
  proof (cases "list_all is_str ms")
    case True
    then show ?thesis using PList
      by (simp add: list_all_iff user_object_message)
  next
    case False
    with p PList have u: "list_all user_object ms" by simp
    then have "list_all is_message_object ms" by (simp add: list_all_iff user_object_def)
    with False u PList show ?thesis by simp
  qed
qed simp_all

lemma slice_from_tail:
  "h \<noteq> 1 \<Longrightarrow> h < int (length xs) \<Longrightarrow> \<exists>k. slice_from xs (- (h - 1)) = drop k (tl xs)"
proof (cases xs)
  case Nil
  then show ?thesis by (simp add: slice_from_def Let_def)
next
  case (Cons x ys)
  assume h: "h \<noteq> 1" "h < int (length xs)"
  define j where "j = nat (if - (h - 1) < 0 then max (int (length xs) + - (h - 1)) 0
                          else min (- (h - 1)) (int (length xs)))"
  have "1 \<le> j" using h Cons unfolding j_def by (auto simp: max_def min_def)
  then obtain k where k: "j = Suc k" by (cases j) auto
  have "slice_from xs (- (h - 1)) = drop j xs"
    unfolding j_def slice_from_def Let_def ..
  with k Cons show ?thesis by auto
qed

lemma list_all_drop: "list_all P xs \<Longrightarrow> list_all P (drop k xs)"
  by (auto simp: list_all_iff dest: in_set_dropD)


lemma ensure_system_inv:
  assumes "list_all user_object q \<or> queue_inv q" and "messages_queue self = q"
  shows "\<exists>self'. ensure_system self = (self', Inr ()) \<and> queue_inv (messages_queue self') \<and>
           max_chat_history self' = max_chat_history self"
proof (cases q)
  case Nil
  with assms(2) show ?thesis by (simp add: ensure_system_def is_system_message)
next
  case (Cons m ms)
  from assms(1) show ?thesis
  proof
    assume u: "list_all user_object q"
    with Cons obtain r where "getitem m ''role'' = Inr r" "r \<noteq> PStr ''system''"
      using user_object_role[of m] by auto
    with u Cons assms(2) show ?thesis
      by (simp add: ensure_system_def is_system_message)
  next
    assume "queue_inv q"
    with Cons assms(2) show ?thesis
      by (simp add: ensure_system_def is_system_def)
  qed
qed

lemma trim_queue_inv:
  assumes "list_all user_object q \<or> queue_inv q" and "messages_queue self = q"
    and "max_chat_history self \<noteq> 1"
  shows "\<exists>self'. trim_queue self = (self', Inr ()) \<and>
           (list_all user_object (messages_queue self') \<or> queue_inv (messages_queue self')) \<and>
           max_chat_history self' = max_chat_history self"
proof (cases "int (length q) > max_chat_history self")
  case False
  with assms show ?thesis by (auto simp: trim_queue_def)
next
  case True
  then obtain k where k: "slice_from q (- (max_chat_history self - 1)) = drop k (tl q)"
    using slice_from_tail[OF assms(3), of q] by auto
  from assms(1) show ?thesis
  proof
    assume u: "list_all user_object q"
    then have "list_all user_object (drop k (tl q))"
      by (cases q) (auto intro: list_all_drop)
    with u True k assms(2) show ?thesis
      by (simp add: trim_queue_def system_messages_users)
  next
    assume i: "queue_inv q"
    show ?thesis
    proof (cases q)
      case Nil
      with True k assms(2) show ?thesis by (simp add: trim_queue_def)
    next
      case (Cons m ms)
      with i have m: "is_system m" and ms: "list_all user_object ms" by simp_all
      then have "system_messages q = Inr [m]"
        using Cons by (simp add: is_system_role system_messages_users)
      moreover have "list_all user_object (drop k ms)" using ms by (rule list_all_drop)
      ultimately show ?thesis using True k assms(2) Cons m
        by (simp add: trim_queue_def)
    qed
  qed
qed

lemma structure_message_inv:
  assumes "queue_inv (messages_queue self)" and "plain_input msg"
    and "max_chat_history self \<noteq> 1"
  shows "\<exists>self'. structure_message self msg = (self', Inr (messages_queue self')) \<and>
           queue_inv (messages_queue self') \<and> max_chat_history self' = max_chat_history self"
proof -
  from normalize_plain[OF assms(2)] obtain items where
    n: "normalize msg = Inr (PList items)" and items: "list_all user_object items" by blast
  let ?s1 = "self\<lparr>messages_queue := messages_queue self @ items\<rparr>"
  have e: "extend_queue self (PList items) = (?s1, Inr ())" by (simp add: extend_queue_def)
  have q1: "list_all user_object (messages_queue ?s1) \<or> queue_inv (messages_queue ?s1)"
    using assms(1) items by (cases "messages_queue self") auto
  have "max_chat_history ?s1 \<noteq> 1" using assms(3) by simp
  from trim_queue_inv[OF q1 refl this] obtain s2 where
    t: "trim_queue ?s1 = (s2, Inr ())" and
    q2: "list_all user_object (messages_queue s2) \<or> queue_inv (messages_queue s2)" and
    h2: "max_chat_history s2 = max_chat_history self" by auto
  from ensure_system_inv[OF q2 refl] obtain s3 where
    "ensure_system s2 = (s3, Inr ())" "queue_inv (messages_queue s3)"
    "max_chat_history s3 = max_chat_history s2" by blast
  with n e t h2 show ?thesis by (simp add: structure_message_def)
qed

lemma map_of_dict_set: "map_of (dict_set k v d) k' = (if k' = k then Some v else map_of d k')"
  by (induction d) auto

lemma set_system_prompt_inv:
  assumes "queue_inv (messages_queue self)"
  shows "\<exists>self'. set_system_prompt self prompt = (self', Inr ()) \<and>
           queue_inv (messages_queue self') \<and> max_chat_history self' = max_chat_history self"
proof (cases "messages_queue self")
  case Nil
  then show ?thesis by (simp add: set_system_prompt_def is_system_message)
next
  case (Cons m ms)
  with assms have m: "is_system m" and ms: "list_all user_object ms" by simp_all
  from m obtain d where d: "m = PDict d" by (cases m) (auto simp: is_system_def)
  have "is_system (PDict (dict_set ''content'' (PStr prompt) d))"
    using m d by (simp add: is_system_def map_of_dict_set)
  with Cons m ms d show ?thesis
    by (simp add: set_system_prompt_def is_system_role)
qed

lemma perform_inv:
  assumes "queue_inv (messages_queue self)" and "plain_action a"
    and "max_chat_history self \<noteq> 1"
  shows "queue_inv (messages_queue (perform self a)) \<and>
         max_chat_history (perform self a) = max_chat_history self"
proof (cases a)
  case (Append msg)
  with assms structure_message_inv[of self msg] show ?thesis by auto
next
  case (SetSystemPrompt prompt)
  with assms set_system_prompt_inv[of self prompt] show ?thesis by auto
next
  case ClearHistory
  then show ?thesis by (simp add: clear_history_def is_system_message)
qed

lemma run_inv:
  "queue_inv (messages_queue self) \<Longrightarrow> list_all plain_action acts \<Longrightarrow>
   max_chat_history self \<noteq> 1 \<Longrightarrow> queue_inv (messages_queue (run self acts))"
proof (induction acts arbitrary: self)
  case Nil
  then show ?case by simp
next
  case (Cons a acts)
  from Cons.prems have "queue_inv (messages_queue (perform self a))"
    "max_chat_history (perform self a) \<noteq> 1"
    using perform_inv[of self a] by auto
  with Cons show ?case by simp
qed

lemma queue_inv_one_system_first: "queue_inv q \<Longrightarrow> one_system_first q"
  by (cases q) (auto simp: one_system_first_def system_count_def filter_system_users)

text \<open>
  C6, as the code behaves. Take an adapter whose \<^verbatim>\<open>max_chat_history\<close> is not 1, with an
  empty queue, and any sequence of \<^verbatim>\<open>structure_message\<close> with plain inputs (a string, a
  list of strings, or a list of message objects none of which has the system role),
  \<^verbatim>\<open>set_system_prompt\<close> and \<^verbatim>\<open>clear_history\<close>. In the state reached the queue holds at
  most one message with the system role, and when the queue is not empty this message
  is its first element.
\<close>

theorem run_one_system_first:
  "max_chat_history self \<noteq> 1 \<and> messages_queue self = [] \<and> list_all plain_action acts \<longrightarrow>
   one_system_first (messages_queue (run self acts))"
proof
  assume a: "max_chat_history self \<noteq> 1 \<and> messages_queue self = [] \<and> list_all plain_action acts"
  then have "queue_inv (messages_queue self)" by simp
  with a have "queue_inv (messages_queue (run self acts))" by (intro run_inv) auto
  then show "one_system_first (messages_queue (run self acts))"
    by (rule queue_inv_one_system_first)
qed

theorem run_one_system_first_witness:
  "max_chat_history (init ''P'' 3 10) \<noteq> 1 \<and> messages_queue (init ''P'' 3 10) = [] \<and>
   list_all plain_action
     [Append (PStr ''a''), SetSystemPrompt ''Q'', Append (PList [PStr ''b'', PStr ''c'']),
      Append (PList [message ''assistant'' ''d'']), ClearHistory, Append (PStr ''e'')] \<and>
   one_system_first (messages_queue (run (init ''P'' 3 10)
     [Append (PStr ''a''), SetSystemPrompt ''Q'', Append (PList [PStr ''b'', PStr ''c'']),
      Append (PList [message ''assistant'' ''d'']), ClearHistory, Append (PStr ''e'')]))"
  using run_one_system_first [of "init ''P'' 3 10"
     "[Append (PStr ''a''), SetSystemPrompt ''Q'', Append (PList [PStr ''b'', PStr ''c'']),
      Append (PList [message ''assistant'' ''d'']), ClearHistory, Append (PStr ''e'')]"]
  by (simp add: init_def user_object_def message_def is_system_def)

text \<open>
  C6, as stated, fails: a list of two message objects with the system role is an
  accepted input, it is appended as it is, and the queue then holds two system
  messages.
\<close>

theorem two_system_messages_counterexample:
  "snd (structure_message (init ''P'' 10 10)
      (PList [message ''system'' ''a'', message ''system'' ''b''])) =
     Inr [message ''system'' ''a'', message ''system'' ''b''] \<and>
   system_count (messages_queue (run (init ''P'' 10 10)
      [Append (PList [message ''system'' ''a'', message ''system'' ''b''])])) = 2 \<and>
   \<not> one_system_first (messages_queue (run (init ''P'' 10 10)
      [Append (PList [message ''system'' ''a'', message ''system'' ''b''])]))"
  by (simp add: queue_defs one_system_first_def system_count_def is_system_def)

section \<open>Appending an empty list\<close>

text \<open>
  The subscripts of the queue steps raise \<^verbatim>\<open>KeyError\<close> or \<^verbatim>\<open>TypeError\<close> only.
\<close>

lemma getitem_not_ValueError: "getitem m k \<noteq> Inl ValueError"
  by (cases m) (auto split: option.splits)

lemma system_messages_not_ValueError: "system_messages q \<noteq> Inl ValueError"
  by (induction q) (auto simp: role_is_system_def getitem_not_ValueError split: sum.splits)

lemma trim_queue_not_ValueError: "snd (trim_queue self) \<noteq> Inl ValueError"
  using system_messages_not_ValueError[of "messages_queue self"]
  by (auto simp: trim_queue_def split: sum.splits)

lemma ensure_system_not_ValueError: "snd (ensure_system self) \<noteq> Inl ValueError"
  using getitem_not_ValueError[of "hd (messages_queue self)" "''role''"]
  by (auto simp: ensure_system_def Let_def split: list.splits sum.splits)

lemma structure_message_empty_accepted:
  "snd (structure_message self (PList [])) \<noteq> Inl ValueError"
proof -
  have e: "extend_queue self (PList []) = (self, Inr ())" by (simp add: extend_queue_def)
  obtain s2 r2 where t: "trim_queue self = (s2, r2)" by (cases "trim_queue self")
  obtain s3 r3 where u: "ensure_system s2 = (s3, r3)" by (cases "ensure_system s2")
  have "r2 \<noteq> Inl ValueError" using trim_queue_not_ValueError[of self] t by simp
  moreover have "r3 \<noteq> Inl ValueError" using ensure_system_not_ValueError[of s2] u by simp
  ultimately show ?thesis
    using e t u by (auto simp: structure_message_def split: sum.splits)
qed

text \<open>
  C10, as the code behaves. An empty list is accepted: \<^verbatim>\<open>structure_message\<close> never raises
  the \<^verbatim>\<open>ValueError\<close> of the format check for it.

  When the queue is no longer than \<^verbatim>\<open>max_chat_history\<close>, nothing is trimmed. An empty
  queue gets the system message. Otherwise the role of the first element decides: when
  it is the system role, the adapter is unchanged; when it is another role, the system
  message is put in front and the messages of the queue and their order stay; when the
  first element has no role (it is no dictionary, or has no \<^verbatim>\<open>"role"\<close> key), the
  subscript raises and the queue is unchanged.

  When the queue is longer than \<^verbatim>\<open>max_chat_history\<close>, it is trimmed as by every append.
  For \<^verbatim>\<open>max_chat_history\<close> of at least 2 and a queue of the regular shape (a system
  message followed by message objects of other roles) the queue becomes its first
  element followed by its last \<^verbatim>\<open>max_chat_history - 1\<close> elements: the older messages
  behind the system message are dropped.
\<close>

theorem structure_message_empty_list:
  "snd (structure_message self (PList [])) \<noteq> Inl ValueError \<and>
   (int (length (messages_queue self)) \<le> max_chat_history self \<longrightarrow>
      structure_message self (PList []) =
        (case messages_queue self of
           [] \<Rightarrow> (self\<lparr>messages_queue := [message ''system'' (system_prompt self)]\<rparr>,
                  Inr [message ''system'' (system_prompt self)])
         | m # ms \<Rightarrow>
             (case getitem m ''role'' of
                Inl e \<Rightarrow> (self, Inl e)
              | Inr r \<Rightarrow>
                  if r = PStr ''system'' then (self, Inr (messages_queue self))
                  else (self\<lparr>messages_queue :=
                              message ''system'' (system_prompt self) # messages_queue self\<rparr>,
                        Inr (message ''system'' (system_prompt self) # messages_queue self))))) \<and>
   (2 \<le> max_chat_history self \<and> max_chat_history self < int (length (messages_queue self)) \<and>
    queue_inv (messages_queue self) \<longrightarrow>
      structure_message self (PList []) =
        (self\<lparr>messages_queue :=
                 hd (messages_queue self) #
                 drop (length (messages_queue self) - nat (max_chat_history self - 1))
                   (messages_queue self)\<rparr>,
         Inr (hd (messages_queue self) #
              drop (length (messages_queue self) - nat (max_chat_history self - 1))
                (messages_queue self))))"
proof (intro conjI impI)
  show "snd (structure_message self (PList [])) \<noteq> Inl ValueError"
    by (rule structure_message_empty_accepted)
next
  assume "int (length (messages_queue self)) \<le> max_chat_history self"
  then show "structure_message self (PList []) =
        (case messages_queue self of
           [] \<Rightarrow> (self\<lparr>messages_queue := [message ''system'' (system_prompt self)]\<rparr>,
                  Inr [message ''system'' (system_prompt self)])
         | m # ms \<Rightarrow>
             (case getitem m ''role'' of
                Inl e \<Rightarrow> (self, Inl e)
              | Inr r \<Rightarrow>
                  if r = PStr ''system'' then (self, Inr (messages_queue self))
                  else (self\<lparr>messages_queue :=
                              message ''system'' (system_prompt self) # messages_queue self\<rparr>,
                        Inr (message ''system'' (system_prompt self) # messages_queue self))))"
    by (cases "messages_queue self")
      (auto simp: structure_message_def extend_queue_def trim_queue_def ensure_system_def
        split: sum.splits)
next
  assume a: "2 \<le> max_chat_history self \<and> max_chat_history self < int (length (messages_queue self)) \<and>
    queue_inv (messages_queue self)"
  let ?q = "messages_queue self"
  let ?h = "max_chat_history self"
  from a obtain m ms where q: "?q = m # ms" by (cases ?q) auto
  with a have m: "is_system m" and ms: "list_all user_object ms" by simp_all
  have sys: "system_messages ?q = Inr [m]"
    using q m ms by (simp add: is_system_role system_messages_users)
  have sl: "slice_from ?q (- (?h - 1)) = drop (length ?q - nat (?h - 1)) ?q"
  proof -
    have "nat (max (int (length ?q) + - (?h - 1)) 0) = length ?q - nat (?h - 1)"
      using a by (simp add: max_def) linarith
    with a show ?thesis by (simp add: slice_from_def Let_def)
  qed
  have role: "getitem m ''role'' = Inr (PStr ''system'')"
    using m by (simp add: is_system_def)
  show "structure_message self (PList []) =
        (self\<lparr>messages_queue := hd ?q # drop (length ?q - nat (?h - 1)) ?q\<rparr>,
         Inr (hd ?q # drop (length ?q - nat (?h - 1)) ?q))"
    using a sys role q unfolding sl[symmetric]
    by (simp add: structure_message_def extend_queue_def trim_queue_def ensure_system_def)
qed

theorem structure_message_empty_list_witness:
  "structure_message (init ''P'' 3 10) (PList []) =
     (\<lparr>max_chat_history = 3, max_retry = 10, base_delay = 1,
       messages_queue = [message ''system'' ''P''], system_prompt = ''P''\<rparr>,
      Inr [message ''system'' ''P'']) \<and>
   structure_message
     \<lparr>max_chat_history = 3, max_retry = 10, base_delay = 1,
       messages_queue = [message ''system'' ''P'', message ''user'' ''hi'', message ''assistant'' ''reply''],
       system_prompt = ''Q''\<rparr> (PList []) =
     (\<lparr>max_chat_history = 3, max_retry = 10, base_delay = 1,
       messages_queue = [message ''system'' ''P'', message ''user'' ''hi'', message ''assistant'' ''reply''],
       system_prompt = ''Q''\<rparr>,
      Inr [message ''system'' ''P'', message ''user'' ''hi'', message ''assistant'' ''reply'']) \<and>
   structure_message
     \<lparr>max_chat_history = 10, max_retry = 10, base_delay = 1,
       messages_queue = [PStr ''role'', PStr ''content''], system_prompt = ''P''\<rparr> (PList []) =
     (\<lparr>max_chat_history = 10, max_retry = 10, base_delay = 1,
       messages_queue = [PStr ''role'', PStr ''content''], system_prompt = ''P''\<rparr>,
      Inl TypeError) \<and>
   structure_message
     \<lparr>max_chat_history = 3, max_retry = 10, base_delay = 1,
       messages_queue = [message ''system'' ''P'', message ''assistant'' ''reply'',
         message ''user'' ''again'', message ''assistant'' ''reply''],
       system_prompt = ''P''\<rparr> (PList []) =
     (\<lparr>max_chat_history = 3, max_retry = 10, base_delay = 1,
       messages_queue = [message ''system'' ''P'', message ''user'' ''again'',
         message ''assistant'' ''reply''],
       system_prompt = ''P''\<rparr>,
      Inr [message ''system'' ''P'', message ''user'' ''again'', message ''assistant'' ''reply''])"
  using structure_message_empty_list [of "init ''P'' 3 10"]
    structure_message_empty_list [of "\<lparr>max_chat_history = 3, max_retry = 10, base_delay = 1,
       messages_queue = [message ''system'' ''P'', message ''user'' ''hi'', message ''assistant'' ''reply''],
       system_prompt = ''Q''\<rparr>"]
    structure_message_empty_list [of "\<lparr>max_chat_history = 10, max_retry = 10, base_delay = 1,
       messages_queue = [PStr ''role'', PStr ''content''], system_prompt = ''P''\<rparr>"]
    structure_message_empty_list [of "\<lparr>max_chat_history = 3, max_retry = 10, base_delay = 1,
       messages_queue = [message ''system'' ''P'', message ''assistant'' ''reply'',
         message ''user'' ''again'', message ''assistant'' ''reply''],
       system_prompt = ''P''\<rparr>"]
  by (simp add: init_def message_def is_system_def user_object_def)

text \<open>
  C10, as stated, fails: after two answered calls of \<^verbatim>\<open>get_response\<close> on an adapter
  with \<^verbatim>\<open>max_chat_history = 3\<close> the queue has four messages, and appending the empty
  list trims it: the first reply is dropped.
\<close>

theorem structure_message_empty_list_counterexample:
  "messages_queue (fst (fst
     (openai_get_response (\<lambda>base r. None) (\<lambda>n model q. Inr ''reply'')
        (fst (fst (openai_get_response (\<lambda>base r. None) (\<lambda>n model q. Inr ''reply'') (init ''P'' 3 10)
              (PStr ''hi'') ''m'' fresh)))
        (PStr ''again'') ''m'' \<lparr>calls = 1, sleeps = []\<rparr>))) =
     [message ''system'' ''P'', message ''assistant'' ''reply'', message ''user'' ''again'',
      message ''assistant'' ''reply''] \<and>
   snd (structure_message (fst (fst
     (openai_get_response (\<lambda>base r. None) (\<lambda>n model q. Inr ''reply'')
        (fst (fst (openai_get_response (\<lambda>base r. None) (\<lambda>n model q. Inr ''reply'') (init ''P'' 3 10)
              (PStr ''hi'') ''m'' fresh)))
        (PStr ''again'') ''m'' \<lparr>calls = 1, sleeps = []\<rparr>))) (PList [])) =
     Inr [message ''system'' ''P'', message ''user'' ''again'', message ''assistant'' ''reply'']"
  by (simp add: openai_get_response_def queue_defs fresh_def openai_retry_success_now invoked_def)

end
